theory Spec2Isabelle
  imports Complex_Main
begin

section \<open>The recommendation notebook: data\<close>

text \<open>
  The notebook holds its tables in pandas data frames. A frame is modelled as the list of
  its rows, in row order. The components of a feature vector are finite floats and are
  modelled as reals. A value of the sim_value column is a \<open>float64\<close>: a real, or NaN,
  which cell 32 gets where the library divides zero by zero.

  \<^item> \<open>movie_row\<close>: a row of movies.csv (movieId, title, genres);
  \<^item> \<open>rating_row\<close>: a row of ratings.csv (userId, movieId, rating, timestamp);
  \<^item> \<open>emb_row\<close>: a row of an embedding file (id, features);
  \<^item> \<open>item_row\<close>: a row of the item-embedding frame once cell 32 has added the
    column sim_value. Before that cell has run the column does not exist: the model holds
    an arbitrary value there, which cell 32 overwrites in every row;
  \<^item> \<open>target_row\<close>: a row of the projection \<open>[["id", "sim_value"]]\<close>;
  \<^item> \<open>display_row\<close>: a row of the projection
    \<open>[["movieId", "title", "genres", "sim_value"]]\<close> of the merged frame.
\<close>

datatype float64 = NaN | Fin real

text \<open>
  Python's \<open>>=\<close> on floats (every comparison with NaN is false), and \<open>1 - d\<close> on a float
  (NaN stays NaN).
\<close>

fun fge :: "float64 \<Rightarrow> float64 \<Rightarrow> bool" where
  "fge (Fin x) (Fin y) = (y \<le> x)"
| "fge _ _ = False"

fun one_minus :: "float64 \<Rightarrow> float64" where
  "one_minus (Fin x) = Fin (1 - x)"
| "one_minus NaN = NaN"

fun fin_value :: "float64 \<Rightarrow> real" where
  "fin_value (Fin x) = x"
| "fin_value NaN = 0"

record movie_row =
  movieId :: int
  title :: string
  genres :: string

record rating_row =
  userId :: int
  rating_movieId :: int
  rating :: real
  timestamp :: int

record emb_row =
  id_col :: int
  features :: "real list"

record item_row = emb_row +
  sim_value :: float64

record target_row =
  target_id :: int
  target_sim_value :: float64

record display_row =
  out_movieId :: int
  out_title :: string
  out_genres :: string
  out_sim_value :: float64

datatype py_error = IndexError | ValueError

text \<open>
  The global variables of the notebook that cells 29 to 41 read or assign. A variable that
  a cell has not assigned yet holds an arbitrary value, which the assigning cell replaces.
\<close>

record notebook =
  df_movie :: "movie_row list"
  df_movie_embedding :: "item_row list"
  df_rating :: "rating_row list"
  df_user_embedding :: "emb_row list"
  user_embedding :: "real list"
  watched_ids :: "int set"
  df_target_movieIds :: "target_row list"

section \<open>The cells\<close>

text \<open>
  Cells 1 to 20 train the factorization with Spark and write the two embedding files; cells
  25 and 26 read the files back and parse the vectors with \<open>json.loads\<close>. All of this is
  library code working on floating-point values and text; the development starts from the
  frames these cells leave behind and covers cells 23 to 41.
\<close>

text \<open>Cell 23: \<^verbatim>\<open>target_user_id = 1\<close>.\<close>

definition target_user_id :: int where
  "target_user_id = 1"

text \<open>
  Cell 29:
  \<^verbatim>\<open>user_embedding = df_user_embedding[df_user_embedding["id"] == target_user_id].iloc[0, 1]\<close>
  The boolean mask keeps the rows whose id is the target's, in order; \<open>.iloc[0, 1]\<close> reads
  the second column (features) of the first kept row and raises IndexError when no row is
  kept.
\<close>

definition iloc_0_1 :: "emb_row list \<Rightarrow> py_error + real list" where
  "iloc_0_1 rows = (case rows of [] \<Rightarrow> Inl IndexError | r # _ \<Rightarrow> Inr (features r))"

definition cell29 :: "notebook \<Rightarrow> py_error + notebook" where
  "cell29 s =
     (case iloc_0_1 (filter (\<lambda>r. id_col r = target_user_id) (df_user_embedding s)) of
        Inl e \<Rightarrow> Inl e
      | Inr v \<Rightarrow> Inr (s\<lparr>user_embedding := v\<rparr>))"

text \<open>
  Cell 32:
  \<^verbatim>\<open>df_movie_embedding["sim_value"] = (
      df_movie_embedding["features"].map(lambda x : 1 - distance.cosine(user_embedding, x)))\<close>
  \<open>distance.cosine\<close> is scipy's; it is a parameter of the model (\<open>cosine\<close>), and may
  raise (the vectors' lengths differ). \<open>Series.map\<close> applies the function to the values in
  row order, so the first exception ends the cell and nothing is assigned. The new series
  has the frame's own index, so the assignment writes its k-th value into the k-th row.
\<close>

fun series_map :: "('a \<Rightarrow> py_error + 'b) \<Rightarrow> 'a list \<Rightarrow> py_error + 'b list" where
  "series_map f [] = Inr []"
| "series_map f (x # xs) =
     (case f x of
        Inl e \<Rightarrow> Inl e
      | Inr y \<Rightarrow> (case series_map f xs of Inl e \<Rightarrow> Inl e | Inr ys \<Rightarrow> Inr (y # ys)))"

definition set_sim_value :: "item_row list \<Rightarrow> float64 list \<Rightarrow> item_row list" where
  "set_sim_value rows vs = map (\<lambda>(r, v). r\<lparr>sim_value := v\<rparr>) (zip rows vs)"

definition cell32 ::
  "(real list \<Rightarrow> real list \<Rightarrow> py_error + float64) \<Rightarrow> notebook \<Rightarrow> py_error + notebook" where
  "cell32 cosine s =
     (case series_map
             (\<lambda>x. case cosine (user_embedding s) x of
                    Inl e \<Rightarrow> Inl e
                  | Inr d \<Rightarrow> Inr (one_minus d))
             (map features (df_movie_embedding s)) of
        Inl e \<Rightarrow> Inl e
      | Inr vs \<Rightarrow> Inr (s\<lparr>df_movie_embedding := set_sim_value (df_movie_embedding s) vs\<rparr>))"

text \<open>
  Modelled from the spec: \<open>scipy.spatial.distance.cosine\<close>, which cell 32 calls, is
  library code and not part of the repository. The spec's glossary names the metric (the
  cosine of the angle between two vectors) and the library documents its distance as
  \<open>1 - u.v / (|u| |v|)\<close>, with \<open>u.v\<close> the inner product and \<open>|u|\<close> the Euclidean norm.
  The inner product of vectors of different lengths raises ValueError. For a zero vector
  the quotient is zero by zero, which is NaN in floating point. The arithmetic is that of
  the real numbers: rounding is not modelled.
\<close>

definition dot :: "real list \<Rightarrow> real list \<Rightarrow> real" where
  "dot u v = sum_list (map (\<lambda>(a, b). a * b) (zip u v))"

definition norm2 :: "real list \<Rightarrow> real" where
  "norm2 u = sqrt (dot u u)"

definition is_zero :: "real list \<Rightarrow> bool" where
  "is_zero u = list_all (\<lambda>c. c = 0) u"

definition distance_cosine :: "real list \<Rightarrow> real list \<Rightarrow> py_error + float64" where
  "distance_cosine u v =
     (if length u \<noteq> length v then Inl ValueError
      else if is_zero u \<or> is_zero v then Inr NaN
      else Inr (Fin (1 - dot u v / (norm2 u * norm2 v))))"

text \<open>
  The cosine of the angle between two vectors, as the spec's glossary and the claim define
  it: the inner product divided by the product of the Euclidean norms.
\<close>

definition cosine_similarity :: "real list \<Rightarrow> real list \<Rightarrow> real" where
  "cosine_similarity u v = dot u v / (norm2 u * norm2 v)"

text \<open>
  Cell 36:
  \<^verbatim>\<open>watched_ids = set(df_rating[df_rating["userId"] == target_user_id]["movieId"].unique())\<close>
  \<open>unique\<close> keeps the first occurrence of each value.
\<close>

fun unique :: "'a list \<Rightarrow> 'a list" where
  "unique [] = []"
| "unique (x # xs) = x # unique (filter (\<lambda>y. y \<noteq> x) xs)"

definition cell36 :: "notebook \<Rightarrow> notebook" where
  "cell36 s =
     s\<lparr>watched_ids :=
         set (unique (map rating_movieId
                (filter (\<lambda>r. userId r = target_user_id) (df_rating s))))\<rparr>"

text \<open>
  Cell 39:
  \<^verbatim>\<open>df_target_movieIds = (
      df_movie_embedding[~df_movie_embedding["id"].isin(watched_ids)]
          .sort_values(by="sim_value", ascending=False)
          .head(10)
          [["id", "sim_value"]]
  )\<close>
  Each of the four operations returns a new frame. \<open>sort_values\<close> sets the rows whose
  key is NaN aside and puts them, in their own order, after the sorted rows
  (\<open>na_position="last"\<close>, the default). For a descending sort pandas reverses the other
  rows, sorts them ascending and reverses the result; the ascending sort is the stable
  \<open>sort_key\<close> here (pandas' default does not promise an order among rows of equal
  sim_value, and no statement below depends on one).
\<close>

definition sort_values_desc :: "('a \<Rightarrow> float64) \<Rightarrow> 'a list \<Rightarrow> 'a list" where
  "sort_values_desc k rows =
     rev (sort_key (\<lambda>r. fin_value (k r)) (rev (filter (\<lambda>r. k r \<noteq> NaN) rows)))
       @ filter (\<lambda>r. k r = NaN) rows"

definition head :: "nat \<Rightarrow> 'a list \<Rightarrow> 'a list" where
  "head n rows = take n rows"

definition id_sim_value :: "item_row \<Rightarrow> target_row" where
  "id_sim_value r = \<lparr>target_id = id_col r, target_sim_value = sim_value r\<rparr>"

definition unwatched :: "notebook \<Rightarrow> item_row list" where
  "unwatched s = filter (\<lambda>r. \<not> (id_col r \<in> watched_ids s)) (df_movie_embedding s)"

definition cell39 :: "notebook \<Rightarrow> notebook" where
  "cell39 s =
     s\<lparr>df_target_movieIds :=
         map id_sim_value (head 10 (sort_values_desc sim_value (unwatched s)))\<rparr>"

text \<open>
  Cell 41:
  \<^verbatim>\<open>pd.merge(left=df_target_movieIds, right=df_movie, left_on="id", right_on="movieId"
  )[["movieId", "title", "genres", "sim_value"]]\<close>
  \<open>pd.merge\<close> joins inner by default: one row for each pair of a left row and a right row
  with equal keys, in the order of the left rows and, for one left row, of the right rows.
  The cell assigns nothing; its value is the table the notebook displays.
\<close>

definition merge :: "target_row list \<Rightarrow> movie_row list \<Rightarrow> (target_row \<times> movie_row) list" where
  "merge left right =
     concat (map (\<lambda>l. map (\<lambda>r. (l, r)) (filter (\<lambda>r. movieId r = target_id l) right)) left)"

definition display_cols :: "target_row \<times> movie_row \<Rightarrow> display_row" where
  "display_cols p =
     \<lparr>out_movieId = movieId (snd p), out_title = title (snd p),
      out_genres = genres (snd p), out_sim_value = target_sim_value (fst p)\<rparr>"

definition cell41 :: "notebook \<Rightarrow> display_row list" where
  "cell41 s = map display_cols (merge (df_target_movieIds s) (df_movie s))"

text \<open>
  The order of the joined rows above is the one pandas documents (the order of the left
  keys) and, from version 2.2 on, always produces. Earlier versions, among them every
  version for the notebook's Python 3.7, produce the rows grouped by key, the keys in the
  order of their first left row; this differs from the order above only when two left rows
  share their id. \<open>merge_grouped\<close> and \<open>cell41_grouped\<close> are the join and the displayed
  table in that order.
\<close>

definition merge_grouped ::
  "target_row list \<Rightarrow> movie_row list \<Rightarrow> (target_row \<times> movie_row) list" where
  "merge_grouped left right =
     concat (map (\<lambda>k. merge (filter (\<lambda>l. target_id l = k) left) right)
               (unique (map target_id left)))"

definition cell41_grouped :: "notebook \<Rightarrow> display_row list" where
  "cell41_grouped s = map display_cols (merge_grouped (df_target_movieIds s) (df_movie s))"

section \<open>An example run\<close>

text \<open>
  A small notebook state, taken from the outputs the notebook shows: the ten recommended
  ids of cell 39 with their sim_value, the first three rows of the item-embedding frame,
  the first three rating rows of user 1, and the nine metadata rows cell 41 displays
  (id 1470 has no row in the metadata file). Two more item rows (ids 1 and 6, which user
  1 has rated) and a rating row of another user are added. The feature vectors are short
  vectors chosen for the example; the ranking reads the sim_value column only.
\<close>

definition item :: "int \<Rightarrow> real list \<Rightarrow> real \<Rightarrow> item_row" where
  "item i f v = \<lparr>id_col = i, features = f, sim_value = Fin v\<rparr>"

definition movie :: "int \<Rightarrow> string \<Rightarrow> string \<Rightarrow> movie_row" where
  "movie i t g = \<lparr>movieId = i, title = t, genres = g\<rparr>"

definition rating_of :: "int \<Rightarrow> int \<Rightarrow> real \<Rightarrow> int \<Rightarrow> rating_row" where
  "rating_of u m r t = \<lparr>userId = u, rating_movieId = m, rating = r, timestamp = t\<rparr>"

definition example_movies :: "movie_row list" where
  "example_movies =
     [movie 1 ''Toy Story (1995)'' ''Adventure|Animation|Children|Comedy|Fantasy'',
      movie 311 ''Relative Fear (1994)'' ''Horror|Thriller'',
      movie 1442 ''Prefontaine (1997)'' ''Drama'',
      movie 2013 ''Poseidon Adventure, The (1972)'' ''Action|Adventure|Drama'',
      movie 2779 ''Heaven Can Wait (1978)'' ''Comedy'',
      movie 2915 ''Risky Business (1983)'' ''Comedy'',
      movie 3250 ''Alive (1993)'' ''Drama'',
      movie 3471 ''Close Encounters of the Third Kind (1977)'' ''Adventure|Drama|Sci-Fi'',
      movie 3499 ''Misery (1990)'' ''Drama|Horror|Thriller'',
      movie 3505 ''No Way Out (1987)'' ''Drama|Mystery|Thriller'']"

definition example_items :: "item_row list" where
  "example_items =
     [item 10 [1, 2] 0.733454,
      item 20 [2, 1] 0.730650,
      item 30 [2, 3] 0.554137,
      item 1 [3, 4] 0.97,
      item 311 [1, 1] 0.938639,
      item 1470 [1, 3] 0.938352,
      item 6 [4, 3] 0.96,
      item 3250 [3, 1] 0.931460,
      item 1442 [1, 4] 0.930913,
      item 2013 [4, 1] 0.940742,
      item 2915 [2, 5] 0.945573,
      item 3505 [5, 2] 0.934250,
      item 3471 [3, 5] 0.940604,
      item 2779 [5, 3] 0.958143,
      item 3499 [4, 5] 0.934232]"

definition example_ratings :: "rating_row list" where
  "example_ratings =
     [rating_of 1 1 4 964982703,
      rating_of 1 3 4 964981247,
      rating_of 1 6 4 964982224,
      rating_of 2 2779 5 964982400]"

definition example_users :: "emb_row list" where
  "example_users =
     [\<lparr>id_col = 10, features = [1, 0]\<rparr>,
      \<lparr>id_col = 1, features = [3, 4]\<rparr>,
      \<lparr>id_col = 20, features = [0, 1]\<rparr>]"

definition example_nb :: notebook where
  "example_nb =
     \<lparr>df_movie = example_movies, df_movie_embedding = example_items,
      df_rating = example_ratings, df_user_embedding = example_users,
      user_embedding = [], watched_ids = {}, df_target_movieIds = []\<rparr>"

text \<open>
  Two variants of the metadata table: one with the row of id 1470 added, one with the row
  of id 2779 three times.
\<close>

definition example_full :: notebook where
  "example_full = example_nb\<lparr>df_movie :=
      movie 1470 ''Rough Magic (1995)'' ''Drama|Romance'' # example_movies\<rparr>"

definition example_dup :: notebook where
  "example_dup = example_nb\<lparr>df_movie :=
      movie 2779 ''Heaven Can Wait (1978)'' ''Comedy'' #
      movie 2779 ''Heaven Can Wait (1978)'' ''Comedy'' # example_movies\<rparr>"

text \<open>
  A stand-in for the library's distance function in the example run of cell 32: it raises
  on vectors of different lengths and returns a fixed distance otherwise.
\<close>

definition example_cosine :: "real list \<Rightarrow> real list \<Rightarrow> py_error + float64" where
  "example_cosine u v = (if length u = length v then Inr (Fin (1 / 4)) else Inl ValueError)"

text \<open>
  A state before cell 32 in which the user vector is (3, 4) and the item vectors are
  (4, 3), (0, 0) and (3, 4), and the state cell 32 leaves with the distance above: the
  zero vector gets NaN.
\<close>

definition example_zero :: notebook where
  "example_zero =
     \<lparr>df_movie = example_movies,
      df_movie_embedding = [item 311 [4, 3] 0, item 2779 [0, 0] 0, item 2915 [3, 4] 0],
      df_rating = example_ratings, df_user_embedding = example_users,
      user_embedding = [3, 4], watched_ids = {1, 3, 6}, df_target_movieIds = []\<rparr>"

definition example_nan :: notebook where
  "example_nan =
     example_zero\<lparr>df_movie_embedding :=
       [item 311 [4, 3] (24 / 25),
        \<lparr>id_col = 2779, features = [0, 0], sim_value = NaN\<rparr>,
        item 2915 [3, 4] 1]\<rparr>"

text \<open>
  A state before cell 39 in which two rows of the item-embedding frame share the id 311.
\<close>

definition example_rep :: notebook where
  "example_rep =
     example_zero\<lparr>df_movie_embedding :=
       [item 311 [4, 3] 0.9, item 2779 [1, 1] 0.8, item 311 [3, 4] 0.7, item 2915 [1, 2] 0.6]\<rparr>"

section \<open>Helper facts\<close>

lemma set_unique: "set (unique xs) = set xs"
  by (induction xs rule: unique.induct) auto

lemma set_sort_values_desc: "set (sort_values_desc k rows) = set rows"
  by (auto simp: sort_values_desc_def)

lemma length_sort_values_desc: "length (sort_values_desc k rows) = length rows"
  using sum_length_filter_compl [of "\<lambda>r. k r = NaN" rows]
  by (simp add: sort_values_desc_def)

lemma target_rows_subset:
  "set (df_target_movieIds (cell39 s)) \<subseteq> id_sim_value ` set (unwatched s)"
  using set_take_subset [of 10 "sort_values_desc sim_value (unwatched s)"]
  by (auto simp: cell39_def head_def set_sort_values_desc)

lemma fge_fin_value: "a \<noteq> NaN \<Longrightarrow> b \<noteq> NaN \<Longrightarrow> fge a b = (fin_value b \<le> fin_value a)"
  by (cases a; cases b) simp_all

lemma fge_refl: "a \<noteq> NaN \<Longrightarrow> fge a a"
  by (cases a) simp_all

lemma sorted_sort_values_desc:
  "sorted_wrt (\<lambda>a b. k b \<noteq> NaN \<longrightarrow> fge (k a) (k b)) (sort_values_desc k rows)"
proof -
  let ?fin = "filter (\<lambda>r. k r \<noteq> NaN) rows"
  have "sorted (map (\<lambda>r. fin_value (k r)) (sort_key (\<lambda>r. fin_value (k r)) (rev ?fin)))"
    by (rule sorted_sort_key)
  then have "sorted_wrt (\<lambda>a b. fin_value (k a) \<le> fin_value (k b))
               (sort_key (\<lambda>r. fin_value (k r)) (rev ?fin))"
    by (simp add: sorted_wrt_map)
  then have desc: "sorted_wrt (\<lambda>a b. fin_value (k b) \<le> fin_value (k a))
               (rev (sort_key (\<lambda>r. fin_value (k r)) (rev ?fin)))"
    by (simp add: sorted_wrt_rev)
  have "sorted_wrt (\<lambda>a b. k b \<noteq> NaN \<longrightarrow> fge (k a) (k b))
               (rev (sort_key (\<lambda>r. fin_value (k r)) (rev ?fin)))"
    by (rule sorted_wrt_mono_rel [OF _ desc]) (simp add: fge_fin_value)
  moreover have "sorted_wrt (\<lambda>a b. k b \<noteq> NaN \<longrightarrow> fge (k a) (k b))
               (filter (\<lambda>r. k r = NaN) rows)"
    by (simp add: sorted_wrt_iff_nth_less) (metis (mono_tags, lifting) mem_Collect_eq nth_mem set_filter)
  ultimately show ?thesis
    by (simp add: sort_values_desc_def sorted_wrt_append)
qed

lemma sorted_target:
  "sorted_wrt (\<lambda>a b. target_sim_value b \<noteq> NaN \<longrightarrow> fge (target_sim_value a) (target_sim_value b))
     (df_target_movieIds (cell39 s))"
proof -
  have "sorted_wrt (\<lambda>a b. sim_value b \<noteq> NaN \<longrightarrow> fge (sim_value a) (sim_value b))
          (head 10 (sort_values_desc sim_value (unwatched s)))"
    unfolding head_def by (rule sorted_wrt_take) (rule sorted_sort_values_desc)
  then show ?thesis
    by (simp add: cell39_def sorted_wrt_map id_sim_value_def)
qed

lemma fst_merge: "p \<in> set (merge left right) \<Longrightarrow> fst p \<in> set left"
  by (auto simp: merge_def)

lemma merge_Cons:
  "merge (l # left) right =
     map (\<lambda>r. (l, r)) (filter (\<lambda>r. movieId r = target_id l) right) @ merge left right"
  by (simp add: merge_def)

lemma merge_Nil: "merge [] right = []"
  by (simp add: merge_def)

lemma sorted_merge:
  "sorted_wrt (\<lambda>a b. target_sim_value b \<noteq> NaN \<longrightarrow> fge (target_sim_value a) (target_sim_value b))
     left \<Longrightarrow>
   sorted_wrt (\<lambda>p q. target_sim_value (fst q) \<noteq> NaN \<longrightarrow>
                 fge (target_sim_value (fst p)) (target_sim_value (fst q)))
     (merge left right)"
proof (induction left)
  case Nil
  then show ?case by (simp add: merge_Nil)
next
  case (Cons l left)
  have same: "sorted_wrt (\<lambda>p q. target_sim_value (fst q) \<noteq> NaN \<longrightarrow>
                 fge (target_sim_value (fst p)) (target_sim_value (fst q)))
                (map (\<lambda>r. (l, r)) (filter (\<lambda>r. movieId r = target_id l) right))"
    by (simp add: sorted_wrt_map sorted_wrt_iff_nth_less fge_refl)
  from Cons show ?case
    by (auto simp: merge_Cons sorted_wrt_append same dest: fst_merge)
qed

lemma sorted_display:
  "sorted_wrt (\<lambda>a b. target_sim_value b \<noteq> NaN \<longrightarrow> fge (target_sim_value a) (target_sim_value b))
     (df_target_movieIds s) \<Longrightarrow>
   sorted_wrt (\<lambda>a b. out_sim_value b \<noteq> NaN \<longrightarrow> fge (out_sim_value a) (out_sim_value b))
     (cell41 s)"
  using sorted_merge [of "df_target_movieIds s" "df_movie s"]
  by (simp add: cell41_def sorted_wrt_map display_cols_def)

lemma unique_distinct: "distinct xs \<Longrightarrow> unique xs = xs"
proof (induction xs)
  case Nil
  then show ?case by simp
next
  case (Cons x xs)
  then have "filter (\<lambda>y. y \<noteq> x) xs = xs"
    by (auto simp: filter_id_conv)
  with Cons show ?case by simp
qed

lemma filter_key_single:
  "distinct (map f xs) \<Longrightarrow> x \<in> set xs \<Longrightarrow> filter (\<lambda>l. f l = f x) xs = [x]"
proof (induction xs)
  case Nil
  then show ?case by simp
next
  case (Cons a xs)
  show ?case
  proof (cases "x = a")
    case True
    from Cons.prems have "f a \<notin> f ` set xs"
      by simp
    then have "filter (\<lambda>l. f l = f a) xs = []"
      unfolding filter_empty_conv by (metis imageI)
    with True show ?thesis by simp
  next
    case False
    with Cons.prems have "x \<in> set xs" and "f a \<noteq> f x"
      by auto
    with Cons show ?thesis by simp
  qed
qed

lemma merge_single: "merge [l] right = map (\<lambda>r. (l, r)) (filter (\<lambda>r. movieId r = target_id l) right)"
  by (simp add: merge_def)

lemma merge_grouped_distinct:
  assumes "distinct (map target_id left)"
  shows "merge_grouped left right = merge left right"
proof -
  have "merge_grouped left right =
          concat (map (\<lambda>x. merge (filter (\<lambda>l. target_id l = target_id x) left) right) left)"
    using assms by (simp add: merge_grouped_def unique_distinct comp_def)
  also have "\<dots> = concat (map (\<lambda>x. merge [x] right) left)"
    using assms by (intro arg_cong [where f = concat] map_cong refl) (simp add: filter_key_single)
  also have "\<dots> = merge left right"
    by (simp add: merge_single merge_def)
  finally show ?thesis .
qed

lemma dot_self_nonneg: "0 \<le> dot u u"
  by (induction u) (simp_all add: dot_def)

lemma dot_self_zero_iff: "dot u u = 0 \<longleftrightarrow> is_zero u"
proof (induction u)
  case Nil
  then show ?case by (simp add: dot_def is_zero_def)
next
  case (Cons a u)
  have "dot (a # u) (a # u) = a * a + dot u u"
    by (simp add: dot_def)
  moreover have "a * a + dot u u = 0 \<longleftrightarrow> a = 0 \<and> dot u u = 0"
    using dot_self_nonneg [of u] by (simp add: add_nonneg_eq_0_iff)
  ultimately show ?case
    using Cons by (simp add: is_zero_def)
qed

lemma norm2_zero_iff: "norm2 u = 0 \<longleftrightarrow> is_zero u"
  by (simp add: norm2_def dot_self_zero_iff)

lemma length_target:
  "length (df_target_movieIds (cell39 s)) = min 10 (length (unwatched s))"
  by (simp add: cell39_def head_def length_sort_values_desc min.commute)

lemma filter_key_distinct:
  "distinct (map movieId right) \<Longrightarrow>
   length (filter (\<lambda>r. movieId r = k) right) = (if k \<in> movieId ` set right then 1 else 0)"
  by (induction right) (auto simp: image_iff)

lemma length_merge:
  "length (merge left right) =
     sum_list (map (\<lambda>l. length (filter (\<lambda>r. movieId r = target_id l) right)) left)"
  by (induction left) (simp_all add: merge_Nil merge_Cons)

lemma length_merge_distinct:
  "distinct (map movieId right) \<Longrightarrow>
   length (merge left right) = length (filter (\<lambda>l. target_id l \<in> movieId ` set right) left)"
  by (induction left) (simp_all add: merge_Nil merge_Cons filter_key_distinct)

lemma keys_merge_distinct:
  "distinct (map movieId right) \<Longrightarrow>
   map (\<lambda>p. (movieId (snd p), target_sim_value (fst p))) (merge left right) =
   map (\<lambda>l. (target_id l, target_sim_value l))
     (filter (\<lambda>l. target_id l \<in> movieId ` set right) left)"
proof (induction left)
  case Nil
  then show ?case by (simp add: merge_Nil)
next
  case (Cons l left)
  show ?case
  proof (cases "target_id l \<in> movieId ` set right")
    case True
    with Cons.prems have "length (filter (\<lambda>r. movieId r = target_id l) right) = 1"
      by (simp add: filter_key_distinct)
    then obtain m where m: "filter (\<lambda>r. movieId r = target_id l) right = [m]"
      by (cases "filter (\<lambda>r. movieId r = target_id l) right") auto
    then have "m \<in> set (filter (\<lambda>r. movieId r = target_id l) right)" by simp
    then have "movieId m = target_id l" by simp
    with Cons True m show ?thesis by (simp add: merge_Cons)
  next
    case False
    then have "filter (\<lambda>r. movieId r = target_id l) right = []"
      by (force simp: filter_empty_conv)
    with Cons False show ?thesis by (simp add: merge_Cons)
  qed
qed

lemma set_merge:
  "set (merge left right) = {(l, r). l \<in> set left \<and> r \<in> set right \<and> movieId r = target_id l}"
  by (auto simp: merge_def)

lemma iloc_filter_find:
  "iloc_0_1 (filter P rows) =
     (case find P rows of None \<Rightarrow> Inl IndexError | Some r \<Rightarrow> Inr (features r))"
  by (induction rows) (simp_all add: iloc_0_1_def)

lemma series_map_length: "series_map f xs = Inr ys \<Longrightarrow> length ys = length xs"
  by (induction xs arbitrary: ys) (auto split: sum.splits)

lemma series_map_nth:
  "series_map f xs = Inr ys \<Longrightarrow> i < length xs \<Longrightarrow> f (xs ! i) = Inr (ys ! i)"
proof (induction xs arbitrary: ys i)
  case Nil
  then show ?case by simp
next
  case (Cons x xs)
  then show ?case
    by (cases i) (auto split: sum.splits)
qed

lemma set_sim_value_cols:
  "length vs = length rows \<Longrightarrow>
   map id_col (set_sim_value rows vs) = map id_col rows \<and>
   map features (set_sim_value rows vs) = map features rows \<and>
   map sim_value (set_sim_value rows vs) = vs"
  by (induction rows vs rule: list_induct2') (simp_all add: set_sim_value_def)

lemma cell32_sim_value:
  assumes "cell32 cosine s = Inr s'" and "i < length (df_movie_embedding s)"
  shows "\<exists>d. cosine (user_embedding s) (features (df_movie_embedding s ! i)) = Inr d \<and>
             sim_value (df_movie_embedding s' ! i) = one_minus d"
proof -
  from assms(1) obtain vs where vs: "series_map
             (\<lambda>x. case cosine (user_embedding s) x of Inl e \<Rightarrow> Inl e | Inr d \<Rightarrow> Inr (one_minus d))
             (map features (df_movie_embedding s)) = Inr vs"
    and s': "s' = s\<lparr>df_movie_embedding := set_sim_value (df_movie_embedding s) vs\<rparr>"
    by (auto simp: cell32_def split: sum.splits)
  from vs have len: "length vs = length (df_movie_embedding s)"
    by (auto dest: series_map_length)
  from series_map_nth [OF vs] assms(2)
  have "(case cosine (user_embedding s) (features (df_movie_embedding s ! i)) of
           Inl e \<Rightarrow> Inl e | Inr d \<Rightarrow> Inr (one_minus d)) = Inr (vs ! i)"
    by simp
  then obtain d where d: "cosine (user_embedding s) (features (df_movie_embedding s ! i)) = Inr d"
    and v: "vs ! i = one_minus d"
    by (auto split: sum.splits)
  from len assms(2) have "sim_value (df_movie_embedding s' ! i) = vs ! i"
    by (simp add: s' set_sim_value_def)
  with d v show ?thesis by simp
qed

lemmas ex_defs = example_nb_def example_items_def example_movies_def example_ratings_def
  example_users_def item_def movie_def rating_of_def target_user_id_def
lemmas cell_defs = cell41_def merge_def display_cols_def cell39_def cell36_def unwatched_def
  sort_values_desc_def head_def id_sim_value_def
lemmas zero_defs = example_zero_def example_nan_def example_rep_def example_movies_def
  example_ratings_def example_users_def item_def movie_def rating_of_def

section \<open>The recommended items are unseen\<close>

text \<open>
  C1. After cell 36 has built the watched set from the rating table and cell 39 has
  selected the recommendations, no recommended id is the movieId of a rating row of the
  target user: the recommended set excludes every item that user has rated in the rating
  data the notebook loaded.
\<close>

theorem recommended_not_watched:
  "\<forall>t \<in> set (df_target_movieIds (cell39 (cell36 s))).
     target_id t \<notin> watched_ids (cell36 s) \<and>
     (\<forall>r \<in> set (df_rating s). userId r = target_user_id \<longrightarrow> rating_movieId r \<noteq> target_id t)"
proof
  fix t
  assume "t \<in> set (df_target_movieIds (cell39 (cell36 s)))"
  with target_rows_subset [of "cell36 s"]
  obtain r where r: "r \<in> set (unwatched (cell36 s))" and t: "t = id_sim_value r"
    by auto
  from r have nw: "id_col r \<notin> watched_ids (cell36 s)"
    by (simp add: unwatched_def)
  have tid: "target_id t = id_col r"
    by (simp add: t id_sim_value_def)
  have "watched_ids (cell36 s) =
        rating_movieId ` {x \<in> set (df_rating s). userId x = target_user_id}"
    by (simp add: cell36_def set_unique)
  with nw tid show "target_id t \<notin> watched_ids (cell36 s) \<and>
     (\<forall>r \<in> set (df_rating s). userId r = target_user_id \<longrightarrow> rating_movieId r \<noteq> target_id t)"
    by force
qed

theorem recommended_not_watched_witness:
  "\<lparr>target_id = 2779, target_sim_value = Fin 0.958143\<rparr>
     \<in> set (df_target_movieIds (cell39 (cell36 example_nb))) \<and>
   rating_of 1 6 4 964982224 \<in> set (df_rating example_nb) \<and>
   userId (rating_of 1 6 4 964982224) = target_user_id \<and>
   (2779::int) \<notin> watched_ids (cell36 example_nb) \<and>
   rating_movieId (rating_of 1 6 4 964982224) \<noteq> (2779::int)"
proof -
  have a: "\<lparr>target_id = 2779, target_sim_value = Fin 0.958143\<rparr>
     \<in> set (df_target_movieIds (cell39 (cell36 example_nb)))"
    by (simp add: cell_defs ex_defs)
  have b: "rating_of 1 6 4 964982224 \<in> set (df_rating example_nb)"
    by (simp add: ex_defs)
  have c: "userId (rating_of 1 6 4 964982224) = target_user_id"
    by (simp add: ex_defs)
  from a b c recommended_not_watched [of example_nb] show ?thesis
    by fastforce
qed

section \<open>The recommendations are ranked\<close>

text \<open>
  C2 as stated fails where a sim_value is NaN. With the user vector (3, 4) and the item
  vectors (4, 3), (0, 0) and (3, 4), cell 32 gives the zero vector the sim_value NaN; the
  sort puts that row last, and the row before it is not greater or equal, in
  df_target_movieIds and in the displayed table alike. And where two rows of the item
  table share an id, the join that groups the rows by key displays the row with sim_value
  0.7 before the row with 0.8.
\<close>

theorem recommended_sorted_counterexample:
  "cell32 distance_cosine example_zero = Inr example_nan \<and>
   Suc (Suc 0) < length (df_target_movieIds (cell39 example_nan)) \<and>
   \<not> fge (target_sim_value (df_target_movieIds (cell39 example_nan) ! Suc 0))
         (target_sim_value (df_target_movieIds (cell39 example_nan) ! Suc (Suc 0))) \<and>
   Suc (Suc 0) < length (cell41 (cell39 example_nan)) \<and>
   \<not> fge (out_sim_value (cell41 (cell39 example_nan) ! Suc 0))
         (out_sim_value (cell41 (cell39 example_nan) ! Suc (Suc 0))) \<and>
   Suc (Suc 0) < length (cell41_grouped (cell39 example_rep)) \<and>
   \<not> fge (out_sim_value (cell41_grouped (cell39 example_rep) ! Suc 0))
         (out_sim_value (cell41_grouped (cell39 example_rep) ! Suc (Suc 0)))"
proof -
  have "is_zero [0, 0]" and "\<not> is_zero [3, 4]" and "\<not> is_zero [4, 3]"
    by (simp_all add: is_zero_def)
  then have "cell32 distance_cosine example_zero = Inr example_nan"
    by (simp add: cell32_def set_sim_value_def distance_cosine_def dot_def norm2_def zero_defs)
  moreover have "map target_sim_value (df_target_movieIds (cell39 example_nan)) =
                   [Fin 1, Fin (24 / 25), NaN]"
    by (simp add: cell_defs zero_defs)
  moreover have "map out_sim_value (cell41 (cell39 example_nan)) = [Fin 1, Fin (24 / 25), NaN]"
    by (simp add: cell_defs zero_defs)
  moreover have "map out_sim_value (cell41_grouped (cell39 example_rep)) =
                   [Fin 0.9, Fin 0.7, Fin 0.8, Fin 0.6]"
    by (simp add: cell41_grouped_def merge_grouped_def cell_defs zero_defs)
  ultimately show ?thesis
    by (simp add: list_eq_iff_nth_eq)
qed

text \<open>
  C2 (amended). In the frame cell 39 assigns to df_target_movieIds, and in the table cell 41
  displays from it in the order of the left rows, the sim_value of each row is at least
  the sim_value of the row after it whenever that next sim_value is not NaN: the rows are
  in descending order of sim_value, and the rows whose sim_value is NaN come last. When
  the recommended ids are distinct, the join that groups its rows by key displays the same
  table, in the same order.
\<close>

theorem recommended_sorted_desc:
  "(\<forall>i. Suc i < length (df_target_movieIds (cell39 s)) \<longrightarrow>
        target_sim_value (df_target_movieIds (cell39 s) ! Suc i) \<noteq> NaN \<longrightarrow>
        fge (target_sim_value (df_target_movieIds (cell39 s) ! i))
            (target_sim_value (df_target_movieIds (cell39 s) ! Suc i))) \<and>
   (\<forall>i. Suc i < length (cell41 (cell39 s)) \<longrightarrow>
        out_sim_value (cell41 (cell39 s) ! Suc i) \<noteq> NaN \<longrightarrow>
        fge (out_sim_value (cell41 (cell39 s) ! i)) (out_sim_value (cell41 (cell39 s) ! Suc i))) \<and>
   (distinct (map target_id (df_target_movieIds (cell39 s))) \<longrightarrow>
        cell41_grouped (cell39 s) = cell41 (cell39 s))"
proof (intro conjI allI impI)
  fix i
  assume "Suc i < length (df_target_movieIds (cell39 s))"
    and "target_sim_value (df_target_movieIds (cell39 s) ! Suc i) \<noteq> NaN"
  with sorted_target [of s]
  show "fge (target_sim_value (df_target_movieIds (cell39 s) ! i))
            (target_sim_value (df_target_movieIds (cell39 s) ! Suc i))"
    by (simp add: sorted_wrt_iff_nth_less)
next
  fix i
  assume "Suc i < length (cell41 (cell39 s))"
    and "out_sim_value (cell41 (cell39 s) ! Suc i) \<noteq> NaN"
  with sorted_display [OF sorted_target, of s]
  show "fge (out_sim_value (cell41 (cell39 s) ! i)) (out_sim_value (cell41 (cell39 s) ! Suc i))"
    by (simp add: sorted_wrt_iff_nth_less)
next
  assume "distinct (map target_id (df_target_movieIds (cell39 s)))"
  then show "cell41_grouped (cell39 s) = cell41 (cell39 s)"
    by (simp add: cell41_grouped_def cell41_def merge_grouped_distinct)
qed

theorem recommended_sorted_desc_witness:
  "Suc 0 < length (df_target_movieIds (cell39 (cell36 example_nb))) \<and>
   target_sim_value (df_target_movieIds (cell39 (cell36 example_nb)) ! Suc 0) \<noteq> NaN \<and>
   fge (target_sim_value (df_target_movieIds (cell39 (cell36 example_nb)) ! 0))
       (target_sim_value (df_target_movieIds (cell39 (cell36 example_nb)) ! Suc 0)) \<and>
   Suc 0 < length (cell41 (cell39 (cell36 example_nb))) \<and>
   out_sim_value (cell41 (cell39 (cell36 example_nb)) ! Suc 0) \<noteq> NaN \<and>
   fge (out_sim_value (cell41 (cell39 (cell36 example_nb)) ! 0))
       (out_sim_value (cell41 (cell39 (cell36 example_nb)) ! Suc 0)) \<and>
   distinct (map target_id (df_target_movieIds (cell39 (cell36 example_nb)))) \<and>
   cell41_grouped (cell39 (cell36 example_nb)) = cell41 (cell39 (cell36 example_nb))"
proof -
  have a: "Suc 0 < length (df_target_movieIds (cell39 (cell36 example_nb)))"
    by (simp add: length_target cell36_def unwatched_def ex_defs)
  have a': "target_sim_value (df_target_movieIds (cell39 (cell36 example_nb)) ! Suc 0) \<noteq> NaN"
    by (simp add: cell_defs ex_defs)
  have b: "Suc 0 < length (cell41 (cell39 (cell36 example_nb)))"
    by (simp add: cell_defs ex_defs)
  have b': "out_sim_value (cell41 (cell39 (cell36 example_nb)) ! Suc 0) \<noteq> NaN"
    by (simp add: cell_defs ex_defs)
  have c: "distinct (map target_id (df_target_movieIds (cell39 (cell36 example_nb))))"
    by (simp add: cell_defs ex_defs)
  from a a' b b' c recommended_sorted_desc [of "cell36 example_nb"] show ?thesis
    by blast
qed

section \<open>The ranking metric\<close>

text \<open>
  C4. When cell 32 succeeds (with the library's distance as modelled from the spec), the
  sim_value it assigns to a row of the item-embedding table is the cosine of the angle
  between the target user's embedding vector and that row's feature vector, that is,
  their inner product divided by the product of their Euclidean norms, provided neither
  of the two vectors is the zero vector. The two vectors then have the same length.
\<close>

theorem sim_value_is_cosine:
  assumes "cell32 distance_cosine s = Inr s'"
    and "i < length (df_movie_embedding s)"
    and "\<not> is_zero (user_embedding s)"
    and "\<not> is_zero (features (df_movie_embedding s ! i))"
  shows "sim_value (df_movie_embedding s' ! i) =
           Fin (cosine_similarity (user_embedding s) (features (df_movie_embedding s ! i))) \<and>
         length (user_embedding s) = length (features (df_movie_embedding s ! i))"
proof -
  from cell32_sim_value [OF assms(1,2)] obtain d
    where d: "distance_cosine (user_embedding s) (features (df_movie_embedding s ! i)) = Inr d"
      and v: "sim_value (df_movie_embedding s' ! i) = one_minus d"
    by blast
  from d have len: "length (user_embedding s) = length (features (df_movie_embedding s ! i))"
    by (auto simp: distance_cosine_def split: if_splits)
  with d assms(3,4)
  have "d = Fin (1 - cosine_similarity (user_embedding s) (features (df_movie_embedding s ! i)))"
    by (simp add: distance_cosine_def cosine_similarity_def)
  with v len show ?thesis by simp
qed

theorem sim_value_is_cosine_witness:
  "cell32 distance_cosine example_zero = Inr example_nan \<and>
   0 < length (df_movie_embedding example_zero) \<and>
   \<not> is_zero (user_embedding example_zero) \<and>
   \<not> is_zero (features (df_movie_embedding example_zero ! 0)) \<and>
   cosine_similarity (user_embedding example_zero)
     (features (df_movie_embedding example_zero ! 0)) = 24 / 25 \<and>
   sim_value (df_movie_embedding example_nan ! 0) = Fin (24 / 25)"
proof -
  have z: "is_zero [0, 0]" "\<not> is_zero [3, 4]" "\<not> is_zero [4, 3]"
    by (simp_all add: is_zero_def)
  then have a: "cell32 distance_cosine example_zero = Inr example_nan"
    by (simp add: cell32_def set_sim_value_def distance_cosine_def dot_def norm2_def zero_defs)
  have b: "0 < length (df_movie_embedding example_zero)"
    by (simp add: zero_defs)
  have c: "\<not> is_zero (user_embedding example_zero)"
    by (simp add: zero_defs is_zero_def)
  have d: "\<not> is_zero (features (df_movie_embedding example_zero ! 0))"
    by (simp add: zero_defs is_zero_def)
  have e: "cosine_similarity (user_embedding example_zero)
     (features (df_movie_embedding example_zero ! 0)) = 24 / 25"
    by (simp add: cosine_similarity_def dot_def norm2_def zero_defs)
  from sim_value_is_cosine [OF a b c d] a b c d e show ?thesis
    by simp
qed

section \<open>How many recommendations are shown\<close>

text \<open>
  C3 as stated fails on the displayed table. In the example run ten item rows or more are
  unwatched and cell 41 displays nine movies, since id 1470 has no metadata row; with the
  metadata row of id 2779 three times in the table it displays eleven.
\<close>

theorem displayed_ten_counterexample:
  "(10 \<le> length (unwatched (cell36 example_nb)) \<and>
    length (cell41 (cell39 (cell36 example_nb))) = 9) \<and>
   length (cell41 (cell39 (cell36 example_dup))) = 11"
  by (simp add: cell_defs ex_defs example_dup_def)

text \<open>
  C3 (amended). The frame df_target_movieIds holds exactly min(10, number of unwatched item
  rows) rows, so exactly 10 when at least 10 item rows are unwatched. When the movieIds of
  the metadata table are distinct, the displayed table holds one row for each of those
  recommendations that has a metadata row, hence at most 10 rows, and exactly 10 when at
  least 10 item rows are unwatched and every recommended id has a metadata row.
\<close>

theorem top_ten_count:
  "length (df_target_movieIds (cell39 s)) = min 10 (length (unwatched s)) \<and>
   (distinct (map movieId (df_movie s)) \<longrightarrow>
      length (cell41 (cell39 s)) =
        length (filter (\<lambda>t. target_id t \<in> movieId ` set (df_movie s))
                  (df_target_movieIds (cell39 s))) \<and>
      length (cell41 (cell39 s)) \<le> 10 \<and>
      (10 \<le> length (unwatched s) \<and>
       (\<forall>t \<in> set (df_target_movieIds (cell39 s)). target_id t \<in> movieId ` set (df_movie s))
       \<longrightarrow> length (cell41 (cell39 s)) = 10))"
proof (intro conjI impI)
  show n: "length (df_target_movieIds (cell39 s)) = min 10 (length (unwatched s))"
    by (rule length_target)
  assume d: "distinct (map movieId (df_movie s))"
  have dm: "df_movie (cell39 s) = df_movie s"
    by (simp add: cell39_def)
  from d show m: "length (cell41 (cell39 s)) =
        length (filter (\<lambda>t. target_id t \<in> movieId ` set (df_movie s))
                  (df_target_movieIds (cell39 s)))"
    by (simp add: cell41_def dm length_merge_distinct)
  have "length (cell41 (cell39 s)) \<le> length (df_target_movieIds (cell39 s))"
    unfolding m by (rule length_filter_le)
  with n show "length (cell41 (cell39 s)) \<le> 10"
    by simp
  assume "10 \<le> length (unwatched s) \<and>
       (\<forall>t \<in> set (df_target_movieIds (cell39 s)). target_id t \<in> movieId ` set (df_movie s))"
  then have "length (unwatched s) \<ge> 10"
    and "filter (\<lambda>t. target_id t \<in> movieId ` set (df_movie s)) (df_target_movieIds (cell39 s))
           = df_target_movieIds (cell39 s)"
    by (simp_all add: filter_id_conv)
  with m n show "length (cell41 (cell39 s)) = 10"
    by simp
qed

theorem top_ten_count_witness:
  "distinct (map movieId (df_movie (cell36 example_full))) \<and>
   10 \<le> length (unwatched (cell36 example_full)) \<and>
   map target_id (df_target_movieIds (cell39 (cell36 example_full))) =
     [2779, 2915, 2013, 3471, 311, 1470, 3505, 3499, 3250, 1442] \<and>
   set [2779, 2915, 2013, 3471, 311, 1470, 3505, 3499, 3250, 1442]
     \<subseteq> movieId ` set (df_movie (cell36 example_full)) \<and>
   length (df_target_movieIds (cell39 (cell36 example_full))) = 10 \<and>
   length (cell41 (cell39 (cell36 example_full))) = 10"
proof -
  have a: "distinct (map movieId (df_movie (cell36 example_full)))"
    by (simp add: cell36_def example_full_def ex_defs)
  have b: "10 \<le> length (unwatched (cell36 example_full))"
    by (simp add: cell36_def unwatched_def example_full_def ex_defs)
  have c: "map target_id (df_target_movieIds (cell39 (cell36 example_full))) =
     [2779, 2915, 2013, 3471, 311, 1470, 3505, 3499, 3250, 1442]"
    by (simp add: cell_defs example_full_def ex_defs)
  have d: "set [2779, 2915, 2013, 3471, 311, 1470, 3505, 3499, 3250, 1442]
     \<subseteq> movieId ` set (df_movie (cell36 example_full))"
    by (simp add: cell36_def example_full_def ex_defs)
  have e: "\<forall>t \<in> set (df_target_movieIds (cell39 (cell36 example_full))).
      target_id t \<in> movieId ` set (df_movie (cell36 example_full))"
  proof
    fix t
    assume "t \<in> set (df_target_movieIds (cell39 (cell36 example_full)))"
    then have "target_id t \<in> set (map target_id (df_target_movieIds (cell39 (cell36 example_full))))"
      by simp
    with c d show "target_id t \<in> movieId ` set (df_movie (cell36 example_full))"
      by auto
  qed
  from a b e top_ten_count [of "cell36 example_full"]
  have "length (df_target_movieIds (cell39 (cell36 example_full))) = 10"
    and "length (cell41 (cell39 (cell36 example_full))) = 10"
    by simp_all
  with a b c d show ?thesis
    by blast
qed

section \<open>Looking up the target user's embedding\<close>

text \<open>
  C8. The lookup of cell 29 is partial. When no row of the user-embedding table has the
  target user's id, the cell raises IndexError. When the id occurs in the table, the cell
  succeeds and assigns to user_embedding the feature vector of the (first) row with that
  id, leaving every other variable as it was.
\<close>

theorem user_embedding_lookup:
  "(target_user_id \<notin> id_col ` set (df_user_embedding s) \<longrightarrow> cell29 s = Inl IndexError) \<and>
   (target_user_id \<in> id_col ` set (df_user_embedding s) \<longrightarrow>
      (\<exists>r. find (\<lambda>r. id_col r = target_user_id) (df_user_embedding s) = Some r \<and>
           r \<in> set (df_user_embedding s) \<and> id_col r = target_user_id \<and>
           cell29 s = Inr (s\<lparr>user_embedding := features r\<rparr>)))"
proof (intro conjI impI)
  assume "target_user_id \<notin> id_col ` set (df_user_embedding s)"
  then have "find (\<lambda>r. id_col r = target_user_id) (df_user_embedding s) = None"
    by (force simp: find_None_iff)
  then show "cell29 s = Inl IndexError"
    by (simp add: cell29_def iloc_filter_find)
next
  assume "target_user_id \<in> id_col ` set (df_user_embedding s)"
  then have "find (\<lambda>r. id_col r = target_user_id) (df_user_embedding s) \<noteq> None"
    by (auto simp: find_None_iff)
  then obtain r where r: "find (\<lambda>r. id_col r = target_user_id) (df_user_embedding s) = Some r"
    by auto
  then have "r \<in> set (df_user_embedding s)" and "id_col r = target_user_id"
    by (auto simp: find_Some_iff)
  with r show "\<exists>r. find (\<lambda>r. id_col r = target_user_id) (df_user_embedding s) = Some r \<and>
           r \<in> set (df_user_embedding s) \<and> id_col r = target_user_id \<and>
           cell29 s = Inr (s\<lparr>user_embedding := features r\<rparr>)"
    by (simp add: cell29_def iloc_filter_find)
qed

theorem user_embedding_lookup_witness:
  "target_user_id \<in> id_col ` set (df_user_embedding example_nb) \<and>
   cell29 example_nb = Inr (example_nb\<lparr>user_embedding := [3, 4]\<rparr>) \<and>
   target_user_id \<notin> id_col ` set (df_user_embedding (example_nb\<lparr>df_user_embedding := []\<rparr>)) \<and>
   cell29 (example_nb\<lparr>df_user_embedding := []\<rparr>) = Inl IndexError"
proof -
  have a: "target_user_id \<in> id_col ` set (df_user_embedding example_nb)"
    by (simp add: ex_defs)
  have b: "target_user_id \<notin> id_col ` set (df_user_embedding (example_nb\<lparr>df_user_embedding := []\<rparr>))"
    by simp
  have c: "find (\<lambda>r. id_col r = target_user_id) (df_user_embedding example_nb)
             = Some \<lparr>id_col = 1, features = [3, 4]\<rparr>"
    by (simp add: ex_defs)
  from a c user_embedding_lookup [of example_nb]
  have "cell29 example_nb = Inr (example_nb\<lparr>user_embedding := [3, 4]\<rparr>)"
    by auto
  moreover from b user_embedding_lookup [of "example_nb\<lparr>df_user_embedding := []\<rparr>"]
  have "cell29 (example_nb\<lparr>df_user_embedding := []\<rparr>) = Inl IndexError"
    by blast
  ultimately show ?thesis using a b by blast
qed

section \<open>The metadata join\<close>

text \<open>
  C9. The table cell 41 displays is the inner join of the recommendations with the
  metadata: its (movieId, sim_value) pairs are exactly those of the recommendations whose
  id is the movieId of a metadata row, and each displayed row carries the title and genres
  of such a metadata row. With distinct movieIds in the metadata the displayed rows are, in
  order, the recommendations that have metadata; a recommendation without metadata is left
  out (the cell returns a table, it has no error result), and then the displayed table has
  fewer rows than the recommendation list.
\<close>

theorem merge_inner_join:
  "set (map (\<lambda>d. (out_movieId d, out_sim_value d)) (cell41 s)) =
     {(target_id t, target_sim_value t) | t.
        t \<in> set (df_target_movieIds s) \<and> target_id t \<in> movieId ` set (df_movie s)} \<and>
   (\<forall>d \<in> set (cell41 s). \<exists>m \<in> set (df_movie s).
        movieId m = out_movieId d \<and> title m = out_title d \<and> genres m = out_genres d) \<and>
   (distinct (map movieId (df_movie s)) \<longrightarrow>
      map (\<lambda>d. (out_movieId d, out_sim_value d)) (cell41 s) =
        map (\<lambda>t. (target_id t, target_sim_value t))
          (filter (\<lambda>t. target_id t \<in> movieId ` set (df_movie s)) (df_target_movieIds s)) \<and>
      ((\<exists>t \<in> set (df_target_movieIds s). target_id t \<notin> movieId ` set (df_movie s)) \<longrightarrow>
         length (cell41 s) < length (df_target_movieIds s)))"
proof (intro conjI impI ballI)
  show "set (map (\<lambda>d. (out_movieId d, out_sim_value d)) (cell41 s)) =
     {(target_id t, target_sim_value t) | t.
        t \<in> set (df_target_movieIds s) \<and> target_id t \<in> movieId ` set (df_movie s)}"
    by (force simp: cell41_def set_merge display_cols_def image_iff)
next
  fix d
  assume "d \<in> set (cell41 s)"
  then show "\<exists>m \<in> set (df_movie s).
        movieId m = out_movieId d \<and> title m = out_title d \<and> genres m = out_genres d"
    by (auto simp: cell41_def set_merge display_cols_def)
next
  assume d: "distinct (map movieId (df_movie s))"
  then show "map (\<lambda>d. (out_movieId d, out_sim_value d)) (cell41 s) =
        map (\<lambda>t. (target_id t, target_sim_value t))
          (filter (\<lambda>t. target_id t \<in> movieId ` set (df_movie s)) (df_target_movieIds s))"
    using keys_merge_distinct [of "df_movie s" "df_target_movieIds s"]
    by (simp add: cell41_def display_cols_def comp_def)
  assume "\<exists>t \<in> set (df_target_movieIds s). target_id t \<notin> movieId ` set (df_movie s)"
  then obtain t where "t \<in> set (df_target_movieIds s)"
    and "\<not> target_id t \<in> movieId ` set (df_movie s)"
    by blast
  then have "length (filter (\<lambda>t. target_id t \<in> movieId ` set (df_movie s)) (df_target_movieIds s))
               < length (df_target_movieIds s)"
    by (rule length_filter_less)
  with d show "length (cell41 s) < length (df_target_movieIds s)"
    by (simp add: cell41_def length_merge_distinct)
qed

theorem merge_inner_join_witness:
  "distinct (map movieId (df_movie (cell39 (cell36 example_nb)))) \<and>
   \<lparr>target_id = 1470, target_sim_value = Fin 0.938352\<rparr>
     \<in> set (df_target_movieIds (cell39 (cell36 example_nb))) \<and>
   (1470::int) \<notin> movieId ` set (df_movie (cell39 (cell36 example_nb))) \<and>
   cell41 (cell39 (cell36 example_nb)) \<noteq> [] \<and>
   map (\<lambda>d. (out_movieId d, out_sim_value d)) (cell41 (cell39 (cell36 example_nb))) =
     [(2779, Fin 0.958143), (2915, Fin 0.945573), (2013, Fin 0.940742), (3471, Fin 0.940604),
      (311, Fin 0.938639), (3505, Fin 0.934250), (3499, Fin 0.934232), (3250, Fin 0.931460),
      (1442, Fin 0.930913)] \<and>
   length (cell41 (cell39 (cell36 example_nb))) < 10"
proof -
  have a: "distinct (map movieId (df_movie (cell39 (cell36 example_nb))))"
    by (simp add: cell39_def cell36_def ex_defs)
  have b1: "\<lparr>target_id = 1470, target_sim_value = Fin 0.938352\<rparr>
     \<in> set (df_target_movieIds (cell39 (cell36 example_nb)))"
    by (simp add: cell_defs ex_defs)
  have b2: "(1470::int) \<notin> movieId ` set (df_movie (cell39 (cell36 example_nb)))"
    by (simp add: cell_defs ex_defs)
  from b1 b2 have b: "\<exists>t \<in> set (df_target_movieIds (cell39 (cell36 example_nb))).
      target_id t \<notin> movieId ` set (df_movie (cell39 (cell36 example_nb)))"
    by force
  have c: "cell41 (cell39 (cell36 example_nb)) \<noteq> []"
    by (simp add: cell_defs ex_defs)
  have d: "map (\<lambda>t. (target_id t, target_sim_value t))
          (filter (\<lambda>t. target_id t \<in> movieId ` set (df_movie (cell39 (cell36 example_nb))))
             (df_target_movieIds (cell39 (cell36 example_nb)))) =
     [(2779, Fin 0.958143), (2915, Fin 0.945573), (2013, Fin 0.940742), (3471, Fin 0.940604),
      (311, Fin 0.938639), (3505, Fin 0.934250), (3499, Fin 0.934232), (3250, Fin 0.931460),
      (1442, Fin 0.930913)]"
    by (simp add: cell_defs ex_defs)
  have e: "length (df_target_movieIds (cell39 (cell36 example_nb))) = 10"
    by (simp add: cell_defs ex_defs)
  from a b merge_inner_join [of "cell39 (cell36 example_nb)"]
  have "map (\<lambda>d. (out_movieId d, out_sim_value d)) (cell41 (cell39 (cell36 example_nb))) =
        map (\<lambda>t. (target_id t, target_sim_value t))
          (filter (\<lambda>t. target_id t \<in> movieId ` set (df_movie (cell39 (cell36 example_nb))))
             (df_target_movieIds (cell39 (cell36 example_nb))))"
    and "length (cell41 (cell39 (cell36 example_nb)))
           < length (df_target_movieIds (cell39 (cell36 example_nb)))"
    by blast+
  with a b1 b2 c d e show ?thesis
    by simp
qed

section \<open>The similarity step and the selection change nothing else\<close>

text \<open>
  C10. When cell 32 succeeds, the item-embedding frame has the same id and features values
  in every row as before, and no other variable has changed. Cell 39 leaves the
  item-embedding frame, the watched set and the rating table as they were: it assigns
  df_target_movieIds and nothing else.
\<close>

theorem sim_step_frame:
  "(cell32 cosine s = Inr s' \<longrightarrow>
      map id_col (df_movie_embedding s') = map id_col (df_movie_embedding s) \<and>
      map features (df_movie_embedding s') = map features (df_movie_embedding s) \<and>
      s' = s\<lparr>df_movie_embedding := df_movie_embedding s'\<rparr>) \<and>
   df_movie_embedding (cell39 s) = df_movie_embedding s \<and>
   watched_ids (cell39 s) = watched_ids s \<and>
   df_rating (cell39 s) = df_rating s \<and>
   cell39 s = s\<lparr>df_target_movieIds := df_target_movieIds (cell39 s)\<rparr>"
proof (intro conjI impI)
  assume run: "cell32 cosine s = Inr s'"
  then obtain vs where vs: "series_map
             (\<lambda>x. case cosine (user_embedding s) x of Inl e \<Rightarrow> Inl e | Inr d \<Rightarrow> Inr (one_minus d))
             (map features (df_movie_embedding s)) = Inr vs"
    and s': "s' = s\<lparr>df_movie_embedding := set_sim_value (df_movie_embedding s) vs\<rparr>"
    by (auto simp: cell32_def split: sum.splits)
  from vs have len: "length vs = length (df_movie_embedding s)"
    by (auto dest: series_map_length)
  from len show "map id_col (df_movie_embedding s') = map id_col (df_movie_embedding s)"
    by (simp add: s' set_sim_value_cols)
  from len show "map features (df_movie_embedding s') = map features (df_movie_embedding s)"
    by (simp add: s' set_sim_value_cols)
  show "s' = s\<lparr>df_movie_embedding := df_movie_embedding s'\<rparr>"
    by (simp add: s')
qed (simp_all add: cell39_def)

theorem sim_step_frame_witness:
  "cell32 example_cosine (example_nb\<lparr>user_embedding := [3, 4]\<rparr>) =
     Inr (example_nb\<lparr>user_embedding := [3, 4],
            df_movie_embedding := map (\<lambda>r. r\<lparr>sim_value := Fin (3 / 4)\<rparr>) example_items\<rparr>) \<and>
   map id_col (map (\<lambda>r. r\<lparr>sim_value := Fin (3 / 4)\<rparr>) example_items) = map id_col example_items \<and>
   map features (map (\<lambda>r. r\<lparr>sim_value := Fin (3 / 4)\<rparr>) example_items) = map features example_items"
proof -
  have a: "cell32 example_cosine (example_nb\<lparr>user_embedding := [3, 4]\<rparr>) =
     Inr (example_nb\<lparr>user_embedding := [3, 4],
            df_movie_embedding := map (\<lambda>r. r\<lparr>sim_value := Fin (3 / 4)\<rparr>) example_items\<rparr>)"
    by (simp add: cell32_def set_sim_value_def example_cosine_def ex_defs)
  from a sim_step_frame [of example_cosine "example_nb\<lparr>user_embedding := [3, 4]\<rparr>"
      "example_nb\<lparr>user_embedding := [3, 4],
            df_movie_embedding := map (\<lambda>r. r\<lparr>sim_value := Fin (3 / 4)\<rparr>) example_items\<rparr>"]
  show ?thesis
    by (simp add: example_nb_def)
qed

end
